theory Spec2Isabelle
  imports Main "HOL-Library.AList"
begin

section \<open>Strings and the Python runtime\<close>

text \<open>
  A Python \<^verbatim>\<open>str\<close> is a sequence of Unicode code points; a code point is modelled
  as a natural number and a string as a list of them. The tables of the Python runtime
  that \<^verbatim>\<open>bot.py\<close> consults (\<^verbatim>\<open>str.isalpha\<close>, the whitespace
  test behind \<^verbatim>\<open>str.strip\<close> and \<^verbatim>\<open>str.split\<close>, and
  \<^verbatim>\<open>str.lower\<close>) and the contents of \<^verbatim>\<open>cities.txt\<close> are not part
  of the repository: they are the fields of an environment every function below takes.
\<close>

type_synonym uchar = nat
type_synonym ustring = "nat list"

record env =
  isalpha :: "uchar \<Rightarrow> bool"
  isspace :: "uchar \<Rightarrow> bool"
  lower :: "ustring \<Rightarrow> ustring"
  cities_txt :: "ustring list"

text \<open>Code points of the letters the source names.\<close>

definition yo :: uchar where "yo = 1105"            \<comment> \<open>U+0451, CYRILLIC SMALL LETTER IO\<close>
definition ye :: uchar where "ye = 1077"            \<comment> \<open>U+0435, CYRILLIC SMALL LETTER IE\<close>
definition soft_sign :: uchar where "soft_sign = 1100"  \<comment> \<open>U+044C\<close>
definition hard_sign :: uchar where "hard_sign = 1098"  \<comment> \<open>U+044A\<close>
definition yeru :: uchar where "yeru = 1099"        \<comment> \<open>U+044B\<close>
definition short_i :: uchar where "short_i = 1081"  \<comment> \<open>U+0439\<close>

text \<open>\<^verbatim>\<open>s.strip()\<close>: whitespace removed at both ends.\<close>

definition strip :: "env \<Rightarrow> ustring \<Rightarrow> ustring" where
  "strip E s = rev (dropWhile (isspace E) (rev (dropWhile (isspace E) s)))"

text \<open>
  \<^verbatim>\<open>s.split()\<close>: the maximal runs of non-whitespace characters, in order. The
  first argument is the run being read.
\<close>

fun split_ws :: "env \<Rightarrow> ustring \<Rightarrow> ustring \<Rightarrow> ustring list" where
  "split_ws E cur [] = (if cur = [] then [] else [cur])"
| "split_ws E cur (c # cs) =
     (if isspace E c
      then (if cur = [] then split_ws E [] cs else cur # split_ws E [] cs)
      else split_ws E (cur @ [c]) cs)"

text \<open>\<^verbatim>\<open>" ".join(ws)\<close>, the separator being U+0020.\<close>

fun join_space :: "ustring list \<Rightarrow> ustring" where
  "join_space [] = []"
| "join_space [w] = w"
| "join_space (w # ws) = w @ [32] @ join_space ws"

text \<open>The call \<^verbatim>\<open>s.replace(io, ie)\<close> of the source: every U+0451 becomes U+0435.\<close>

definition replace_yo :: "ustring \<Rightarrow> ustring" where
  "replace_yo s = map (\<lambda>c. if c = yo then ye else c) s"

definition normalize_city :: "env \<Rightarrow> ustring \<Rightarrow> ustring" where
  "normalize_city E s =
     (if s = [] then []
      else replace_yo (join_space (split_ws E [] (lower E (strip E s)))))"

text \<open>
  \<^verbatim>\<open>CITY_SET\<close>: the normalised non-blank lines of \<^verbatim>\<open>cities.txt\<close>.
\<close>

definition CITY_SET :: "env \<Rightarrow> ustring set" where
  "CITY_SET E = set (map (normalize_city E) (filter (\<lambda>line. strip E line \<noteq> []) (cities_txt E)))"

definition SKIP_LAST :: "uchar set" where
  "SKIP_LAST = {soft_sign, hard_sign, yeru, short_i}"

text \<open>
  The loop of \<^verbatim>\<open>last_significant_letter\<close> over \<^verbatim>\<open>reversed(word)\<close>:
  a non-alphabetic character is passed over, an alphabetic one has its U+0451 replaced and is
  passed over when the result is in \<^verbatim>\<open>SKIP_LAST\<close>, returned otherwise.
\<close>

fun last_loop :: "env \<Rightarrow> ustring \<Rightarrow> uchar option" where
  "last_loop E [] = None"
| "last_loop E (ch # rest) =
     (if isalpha E ch
      then (let ch_norm = (if ch = yo then ye else ch)
            in if ch_norm \<in> SKIP_LAST then last_loop E rest else Some ch_norm)
      else last_loop E rest)"

definition last_significant_letter :: "env \<Rightarrow> ustring \<Rightarrow> uchar option" where
  "last_significant_letter E word =
     (let word' = normalize_city E word
      in if word' = [] then None else last_loop E (rev word'))"

text \<open>
  An environment for concrete runs: the runtime's tables restricted to Basic Latin and the
  Russian letters (U+0410 to U+044F, U+0401, U+0451), on which they agree with CPython, and a
  short \<^verbatim>\<open>cities.txt\<close> holding four names and a blank line.
\<close>

definition ru_isalpha :: "uchar \<Rightarrow> bool" where
  "ru_isalpha c = ((65 \<le> c \<and> c \<le> 90) \<or> (97 \<le> c \<and> c \<le> 122) \<or> (1040 \<le> c \<and> c \<le> 1103)
                   \<or> c = 1025 \<or> c = 1105)"

definition ru_isspace :: "uchar \<Rightarrow> bool" where
  "ru_isspace c = ((9 \<le> c \<and> c \<le> 13) \<or> (28 \<le> c \<and> c \<le> 32))"

definition ru_lower_char :: "uchar \<Rightarrow> uchar" where
  "ru_lower_char c =
     (if (65 \<le> c \<and> c \<le> 90) \<or> (1040 \<le> c \<and> c \<le> 1071) then c + 32
      else if c = 1025 then 1105 else c)"

text \<open>City names as code points; a line of the file ends in U+000A.\<close>

definition Moskva :: ustring where "Moskva = [1052, 1086, 1089, 1082, 1074, 1072]"
definition Anapa :: ustring where "Anapa = [1040, 1085, 1072, 1087, 1072]"
definition Uchaly :: ustring where "Uchaly = [1059, 1095, 1072, 1083, 1099]"
definition Oryol :: ustring where "Oryol = [1054, 1088, 1105, 1083]"
definition moskva :: ustring where "moskva = [1084, 1086, 1089, 1082, 1074, 1072]"

definition ru_env :: env where
  "ru_env = \<lparr> isalpha = ru_isalpha, isspace = ru_isspace, lower = map ru_lower_char,
               cities_txt = [Moskva @ [10], Anapa @ [10], [10], Uchaly @ [10], Oryol] \<rparr>"

section \<open>The statistics table (database.py)\<close>

text \<open>
  The table \<^verbatim>\<open>players\<close> has the primary key \<^verbatim>\<open>user_id\<close>: it is a map
  from the key to the other columns. SQLite integers are 64-bit; the counters are modelled as
  unbounded integers, which agrees with SQLite below that bound. Every statement is taken to
  succeed (the callers in \<^verbatim>\<open>bot.py\<close> ignore a failure).
\<close>

type_synonym user_id = int

record player_row =
  username :: ustring
  country :: ustring
  wins :: int
  current_streak :: int
  max_streak :: int

type_synonym players_table = "user_id \<Rightarrow> player_row option"

definition Player :: ustring where "Player = [80, 108, 97, 121, 101, 114]"

text \<open>\<^verbatim>\<open>INSERT OR IGNORE INTO players (user_id, username) VALUES (?, ?)\<close>, the other
  columns taking their defaults.\<close>

definition insert_or_ignore :: "players_table \<Rightarrow> user_id \<Rightarrow> ustring \<Rightarrow> players_table" where
  "insert_or_ignore d uid name =
     (case d uid of
        None \<Rightarrow> d(uid \<mapsto> \<lparr> username = name, country = [], wins = 0,
                               current_streak = 0, max_streak = 0 \<rparr>)
      | Some r \<Rightarrow> d)"

text \<open>\<^verbatim>\<open>UPDATE players SET ... WHERE user_id = ?\<close>\<close>

definition update_where :: "players_table \<Rightarrow> user_id \<Rightarrow> (player_row \<Rightarrow> player_row) \<Rightarrow> players_table" where
  "update_where d uid f = (case d uid of None \<Rightarrow> d | Some r \<Rightarrow> d(uid \<mapsto> f r))"

text \<open>\<^verbatim>\<open>username or "Player"\<close>: a missing or empty name is replaced.\<close>

definition name_or_Player :: "ustring option \<Rightarrow> ustring" where
  "name_or_Player u = (case u of None \<Rightarrow> Player | Some n \<Rightarrow> (if n = [] then Player else n))"

definition add_or_update_player :: "players_table \<Rightarrow> user_id \<Rightarrow> ustring option \<Rightarrow> players_table" where
  "add_or_update_player d uid uname =
     (let d1 = insert_or_ignore d uid (name_or_Player uname)
      in update_where d1 uid (\<lambda>r. r\<lparr>username := name_or_Player uname\<rparr>))"

definition record_win :: "players_table \<Rightarrow> user_id \<Rightarrow> players_table" where
  "record_win d uid =
     (let d1 = insert_or_ignore d uid Player;
          d2 = update_where d1 uid
                 (\<lambda>r. r\<lparr>wins := wins r + 1, current_streak := current_streak r + 1\<rparr>)
      in update_where d2 uid
           (\<lambda>r. if current_streak r > max_streak r then r\<lparr>max_streak := current_streak r\<rparr> else r))"

definition reset_streak :: "players_table \<Rightarrow> user_id \<Rightarrow> players_table" where
  "reset_streak d uid =
     (let d1 = insert_or_ignore d uid Player
      in update_where d1 uid (\<lambda>r. r\<lparr>current_streak := 0\<rparr>))"

section \<open>Sessions, timers and registries (bot.py)\<close>

text \<open>
  \<^verbatim>\<open>make_game_id\<close> builds the string \<^verbatim>\<open>game_<min>_<max>\<close>. A decimal
  numeral holds no underscore, so the string determines the pair of numbers and the pair
  stands for it. \<^verbatim>\<open>pair_key\<close> is that pair in the source as well.
\<close>

type_synonym game_id = "int \<times> int"

definition make_game_id :: "user_id \<Rightarrow> user_id \<Rightarrow> game_id" where
  "make_game_id a b = (min a b, max a b)"

definition pair_key :: "user_id \<Rightarrow> user_id \<Rightarrow> user_id \<times> user_id" where
  "pair_key a b = (min a b, max a b)"

text \<open>
  A timer is the asyncio task running \<^verbatim>\<open>turn_timeout(game_id, user_id)\<close>. It is
  \<open>Sleeping\<close> from its creation until its sleep ends or it is cancelled, \<open>Running\<close>
  while the code after the sleep executes, and done afterwards (\<open>Cancelled\<close> or
  \<open>Finished\<close>). Tasks are kept in a table and named by their index in it.
\<close>

datatype task_status = Sleeping | Running | Cancelled | Finished

record timer =
  t_game :: game_id
  t_user :: user_id
  t_status :: task_status

text \<open>
  The dictionary stored in \<^verbatim>\<open>games\<close>. The key \<^verbatim>\<open>started_at\<close> is written
  once and never read; it is left out.
\<close>

record game =
  players :: "user_id \<times> user_id"
  turn :: user_id
  last_letter :: "uchar option"
  used_cities :: "ustring set"
  timer_task :: "nat option"
  moves :: int
  last_move :: "(user_id \<times> ustring) option"

datatype reason = TimedOut | Surrendered

text \<open>
  What the bot sends, by kind and with the values the text is built from. A reply to a message
  and the answer to a button press go to the user they came from.
\<close>

datatype msg =
    MsgHelp
  | MsgAlreadyInGame
  | MsgQueued
  | MsgAlreadyQueued
  | MsgLeftQueue
  | MsgNotInQueue
  | MsgNotInGame
  | MsgGameNotFound
  | MsgNoRematchOffers
  | MsgOfferCancelled
  | MsgOpponentCancelledOffer
  | MsgNotYourTurn
  | MsgInvalidWord
  | MsgUnknownCity
  | MsgAlreadyUsed
  | MsgWrongLetter uchar
  | MsgAccepted ustring
  | MsgOpponentMoved user_id ustring "uchar option"
  | MsgYourTurn "uchar option"
  | MsgOpponentNamed user_id ustring user_id
  | MsgAwaitingOpponent user_id
  | MsgGameStarted bool
  | MsgGameStartedWait user_id
  | MsgRematchButton user_id user_id
  | MsgDraw reason
  | MsgYouWon user_id reason
  | MsgYouLost user_id reason
  | MsgBadRequest
  | MsgConsentWithdrawn
  | MsgOpponentWithdrew
  | MsgConsentGiven
  | MsgOpponentConsented
  | MsgRematchAborted

text \<open>
  The state of the process: the module's globals, the task table, the log of what was sent and
  the statistics table. \<^verbatim>\<open>rematch_offers\<close> is iterated by
  \<^verbatim>\<open>cmd_cancel_rematch\<close>, so it keeps its insertion order as an association list.

  Each handler is one transition: the event loop runs one handler at a time, and the model
  does not interleave another handler at the points where a handler awaits a send, the
  database or a cancelled task. Sends and database calls are taken to succeed.
\<close>

record bot =
  games :: "game_id \<Rightarrow> game option"
  player_game :: "user_id \<Rightarrow> game_id option"
  waiting_player :: "user_id option"
  rematch_offers :: "((user_id \<times> user_id) \<times> user_id set) list"
  tasks :: "timer list"
  outbox :: "(user_id \<times> msg) list"
  db :: players_table

definition init_bot :: "players_table \<Rightarrow> bot" where
  "init_bot d = \<lparr> games = Map.empty, player_game = Map.empty, waiting_player = None,
                  rematch_offers = [], tasks = [], outbox = [], db = d \<rparr>"

definition send :: "user_id \<Rightarrow> msg \<Rightarrow> bot \<Rightarrow> bot" where
  "send u m s = s\<lparr>outbox := outbox s @ [(u, m)]\<rparr>"

text \<open>
  \<^verbatim>\<open>if task and not task.done(): task.cancel(); await task\<close>. A sleeping task ends
  cancelled. A task that is done is left alone. The running task is met only when
  \<^verbatim>\<open>end_game\<close> is called from \<^verbatim>\<open>turn_timeout\<close> and cancels itself:
  the \<^verbatim>\<open>CancelledError\<close> is caught on the spot and the task goes on.
\<close>

definition cancel_task :: "nat \<Rightarrow> bot \<Rightarrow> bot" where
  "cancel_task t s =
     (if t < length (tasks s) \<and> t_status (tasks s ! t) = Sleeping
      then s\<lparr>tasks := (tasks s)[t := (tasks s ! t)\<lparr>t_status := Cancelled\<rparr>]\<rparr>
      else s)"

definition cancel_timer_of :: "game \<Rightarrow> bot \<Rightarrow> bot" where
  "cancel_timer_of g s = (case timer_task g of None \<Rightarrow> s | Some t \<Rightarrow> cancel_task t s)"

text \<open>\<^verbatim>\<open>game["players"][0] if game["players"][1] == user_id else game["players"][1]\<close>\<close>

definition opponent_of :: "game \<Rightarrow> user_id \<Rightarrow> user_id" where
  "opponent_of g u = (if snd (players g) = u then fst (players g) else snd (players g))"

definition start_turn :: "game_id \<Rightarrow> bot \<Rightarrow> bot" where
  "start_turn gid s =
     (case games s gid of
        None \<Rightarrow> s
      | Some g \<Rightarrow>
          let user_to_move = turn g;
              opponent = opponent_of g user_to_move;
              s1 = send user_to_move (MsgYourTurn (last_letter g)) s;
              s2 = (case last_move g of
                      Some (mover_id, city) \<Rightarrow>
                        send opponent (MsgOpponentNamed mover_id city user_to_move) s1
                    | None \<Rightarrow> send opponent (MsgAwaitingOpponent user_to_move) s1);
              s3 = cancel_timer_of g s2;
              task = length (tasks s3)
          in s3\<lparr>tasks := tasks s3 @ [\<lparr>t_game = gid, t_user = user_to_move, t_status = Sleeping\<rparr>],
                games := (games s3)(gid \<mapsto> g\<lparr>timer_task := Some task\<rparr>)\<rparr>)"

text \<open>The function returns the game id in both branches; no caller reads it.\<close>

definition create_game_between :: "user_id \<Rightarrow> user_id \<Rightarrow> user_id option \<Rightarrow> bot \<Rightarrow> bot" where
  "create_game_between p1 p2 first_player s =
     (let gid = make_game_id p1 p2
      in if games s gid \<noteq> None then s
         else
           let first = (case first_player of None \<Rightarrow> p1 | Some f \<Rightarrow> f);
               g = \<lparr> players = (p1, p2), turn = first, last_letter = None, used_cities = {},
                     timer_task = None, moves = 0, last_move = None \<rparr>;
               s1 = s\<lparr>games := (games s)(gid \<mapsto> g),
                      player_game := (player_game s)(p1 \<mapsto> gid, p2 \<mapsto> gid)\<rparr>;
               s2 = send p1 (MsgGameStarted (first = p1)) s1;
               s3 = send p2 (MsgGameStartedWait p1) s2
           in start_turn gid s3)"

definition offer_rematch_to_players :: "user_id \<Rightarrow> user_id \<Rightarrow> bot \<Rightarrow> bot" where
  "offer_rematch_to_players p1 p2 s =
     send p2 (MsgRematchButton p1 p2) (send p1 (MsgRematchButton p1 p2) s)"

definition end_game :: "game_id \<Rightarrow> user_id option \<Rightarrow> reason \<Rightarrow> bot \<Rightarrow> bot" where
  "end_game gid winner_id why s =
     (case games s gid of
        None \<Rightarrow> s
      | Some g \<Rightarrow>
          let p1 = fst (players g);
              p2 = snd (players g);
              s1 = cancel_timer_of g s;
              s2 = (case winner_id of
                      None \<Rightarrow>
                        let a = send p2 (MsgDraw why) (send p1 (MsgDraw why) s1)
                        in a\<lparr>db := reset_streak (reset_streak (db a) p1) p2\<rparr>
                    | Some w \<Rightarrow>
                        let loser = (if w = p2 then p1 else p2);
                            a = send loser (MsgYouLost w why) (send w (MsgYouWon loser why) s1)
                        in a\<lparr>db := reset_streak (record_win (db a) w) loser\<rparr>);
              s3 = s2\<lparr>player_game := (player_game s2)(p1 := None, p2 := None),
                      games := (games s2)(gid := None)\<rparr>
          in offer_rematch_to_players p1 p2 s3)"

definition set_status :: "nat \<Rightarrow> task_status \<Rightarrow> bot \<Rightarrow> bot" where
  "set_status t st s = s\<lparr>tasks := (tasks s)[t := (tasks s ! t)\<lparr>t_status := st\<rparr>]\<rparr>"

text \<open>
  The sleep of task \<open>t\<close> ends. Only a sleeping task wakes up: a cancelled one returns from
  its \<^verbatim>\<open>except asyncio.CancelledError\<close> branch without reading the state.
\<close>

definition turn_timeout :: "nat \<Rightarrow> bot \<Rightarrow> bot" where
  "turn_timeout t s =
     (if t < length (tasks s) \<and> t_status (tasks s ! t) = Sleeping
      then
        let game_id = t_game (tasks s ! t);
            user_id = t_user (tasks s ! t);
            s1 = set_status t Running s;
            s2 = (case games s1 game_id of
                    None \<Rightarrow> s1
                  | Some g \<Rightarrow>
                      if turn g = user_id
                      then end_game game_id (Some (opponent_of g user_id)) TimedOut s1
                      else s1)
        in set_status t Finished s2
      else s)"

definition is_user_in_game :: "bot \<Rightarrow> user_id \<Rightarrow> bool" where
  "is_user_in_game s u = (player_game s u \<noteq> None)"

subsection \<open>Commands\<close>

definition cmd_start :: "user_id \<Rightarrow> ustring option \<Rightarrow> bot \<Rightarrow> bot" where
  "cmd_start uid uname s = send uid MsgHelp (s\<lparr>db := add_or_update_player (db s) uid uname\<rparr>)"

definition cmd_play :: "user_id \<Rightarrow> ustring option \<Rightarrow> bot \<Rightarrow> bot" where
  "cmd_play uid uname s =
     (let s0 = s\<lparr>db := add_or_update_player (db s) uid uname\<rparr>
      in if is_user_in_game s0 uid then send uid MsgAlreadyInGame s0
         else
           case waiting_player s0 of
             None \<Rightarrow> send uid MsgQueued (s0\<lparr>waiting_player := Some uid\<rparr>)
           | Some w \<Rightarrow>
               if w = uid then send uid MsgAlreadyQueued s0
               else create_game_between w uid (Some w) (s0\<lparr>waiting_player := None\<rparr>))"

definition cmd_leave :: "user_id \<Rightarrow> bot \<Rightarrow> bot" where
  "cmd_leave uid s =
     (if waiting_player s = Some uid then send uid MsgLeftQueue (s\<lparr>waiting_player := None\<rparr>)
      else send uid MsgNotInQueue s)"

definition cmd_surrender :: "user_id \<Rightarrow> bot \<Rightarrow> bot" where
  "cmd_surrender uid s =
     (case player_game s uid of
        None \<Rightarrow> send uid MsgNotInGame s
      | Some gid \<Rightarrow>
          (case games s gid of
             None \<Rightarrow> send uid MsgGameNotFound s
           | Some g \<Rightarrow> end_game gid (Some (opponent_of g uid)) Surrendered s))"

text \<open>
  The loop of \<^verbatim>\<open>cmd_cancel_rematch\<close> over the entries in insertion order: the
  entries that are left, and the players to notify.
\<close>

fun withdraw_all :: "user_id \<Rightarrow> ((user_id \<times> user_id) \<times> user_id set) list
    \<Rightarrow> ((user_id \<times> user_id) \<times> user_id set) list" where
  "withdraw_all u [] = []"
| "withdraw_all u ((key, offers) # rest) =
     (if u \<in> offers
      then (if offers - {u} = {} then withdraw_all u rest
            else (key, offers - {u}) # withdraw_all u rest)
      else (key, offers) # withdraw_all u rest)"

fun to_notify :: "user_id \<Rightarrow> ((user_id \<times> user_id) \<times> user_id set) list \<Rightarrow> user_id list" where
  "to_notify u [] = []"
| "to_notify u ((key, offers) # rest) =
     (if u \<in> offers
      then (if snd key = u then fst key else snd key) # to_notify u rest
      else to_notify u rest)"

definition cmd_cancel_rematch :: "user_id \<Rightarrow> bot \<Rightarrow> bot" where
  "cmd_cancel_rematch uid s =
     (let others = to_notify uid (rematch_offers s);
          s1 = s\<lparr>rematch_offers := withdraw_all uid (rematch_offers s)\<rparr>
      in if others = [] then send uid MsgNoRematchOffers s1
         else fold (\<lambda>other. send other MsgOpponentCancelledOffer) others
                (send uid MsgOfferCancelled s1))"

subsection \<open>Moves\<close>

text \<open>Lines 434 to 461 of \<^verbatim>\<open>handle_move\<close>: the move has passed every check.\<close>

definition accept_move :: "env \<Rightarrow> game_id \<Rightarrow> game \<Rightarrow> user_id \<Rightarrow> ustring \<Rightarrow> bot \<Rightarrow> bot" where
  "accept_move E gid g uid city s =
     (let nxt = last_significant_letter E city;
          s1 = cancel_timer_of g s;
          opponent = opponent_of g uid;
          s2 = send uid (MsgAccepted city) s1;
          s3 = send opponent (MsgOpponentMoved uid city nxt) s2;
          task = length (tasks s3)
      in s3\<lparr>tasks := tasks s3 @ [\<lparr>t_game = gid, t_user = opponent, t_status = Sleeping\<rparr>],
            games := (games s3)(gid \<mapsto>
              g\<lparr>used_cities := insert city (used_cities g), moves := moves g + 1,
                 last_letter := nxt, last_move := Some (uid, city), turn := opponent,
                 timer_task := Some task\<rparr>)\<rparr>)"

text \<open>\<^verbatim>\<open>normalize_city((message.text or "").strip())\<close>\<close>

definition move_city :: "env \<Rightarrow> ustring option \<Rightarrow> ustring" where
  "move_city E text = normalize_city E (strip E (case text of None \<Rightarrow> [] | Some t \<Rightarrow> t))"

definition handle_move :: "env \<Rightarrow> user_id \<Rightarrow> ustring option \<Rightarrow> bot \<Rightarrow> bot" where
  "handle_move E uid text s =
     (case player_game s uid of
        None \<Rightarrow> s
      | Some gid \<Rightarrow>
          (case games s gid of
             None \<Rightarrow> s
           | Some g \<Rightarrow>
               if turn g \<noteq> uid then send uid MsgNotYourTurn s
               else
                 let city = move_city E text
                 in if city = [] then send uid MsgInvalidWord s
                    else if city \<notin> CITY_SET E then send uid MsgUnknownCity s
                    else if city \<in> used_cities g then send uid MsgAlreadyUsed s
                    else
                      (case last_letter g of
                         None \<Rightarrow> accept_move E gid g uid city s
                       | Some needed \<Rightarrow>
                           if hd city \<noteq> needed then send uid (MsgWrongLetter needed) s
                           else accept_move E gid g uid city s)))"

subsection \<open>The rematch button\<close>

text \<open>
  The callback data \<^verbatim>\<open>rematch:<p1>:<p2>\<close> arrives parsed; \<open>None\<close> is data that
  does not parse. \<^verbatim>\<open>AList.update\<close> stores the set under its key where the key
  stands, or at the end for a new key, as the assignment to a Python dictionary does.
\<close>

definition offers_of :: "bot \<Rightarrow> user_id \<times> user_id \<Rightarrow> user_id set" where
  "offers_of s key = (case map_of (rematch_offers s) key of None \<Rightarrow> {} | Some offers \<Rightarrow> offers)"

definition callback_rematch :: "user_id \<Rightarrow> (user_id \<times> user_id) option \<Rightarrow> bot \<Rightarrow> bot" where
  "callback_rematch uid data s =
     (case data of
        None \<Rightarrow> send uid MsgBadRequest s
      | Some (p1, p2) \<Rightarrow>
          let key = pair_key p1 p2;
              offers = offers_of s key;
              other = (if p2 = uid then p1 else p2)
          in if uid \<in> offers
             then
               let s1 = s\<lparr>rematch_offers := AList.update key (offers - {uid}) (rematch_offers s)\<rparr>;
                   s2 = send other MsgOpponentWithdrew (send uid MsgConsentWithdrawn s1)
               in if offers - {uid} = {}
                  then s2\<lparr>rematch_offers := AList.delete key (rematch_offers s2)\<rparr>
                  else s2
             else
               let s1 = s\<lparr>rematch_offers := AList.update key (insert uid offers) (rematch_offers s)\<rparr>;
                   s2 = send other MsgOpponentConsented (send uid MsgConsentGiven s1)
               in if insert uid offers = {fst key, snd key}
                  then
                    let s3 = s2\<lparr>rematch_offers := AList.delete key (rematch_offers s2)\<rparr>
                    in if is_user_in_game s3 p1 \<or> is_user_in_game s3 p2
                       then send p2 MsgRematchAborted (send p1 MsgRematchAborted s3)
                       else create_game_between p1 p2 (Some p1) s3
                  else s2)"

subsection \<open>Events and runs\<close>

text \<open>
  What reaches the process: a command or a text from a user, a press of a rematch button, the
  end of a timer's sleep. The commands that only read the statistics table, and
  \<^verbatim>\<open>/country\<close>, touch none of the registries and are not among the events.
\<close>

datatype event =
    Start user_id "ustring option"
  | Play user_id "ustring option"
  | Leave user_id
  | Surrender user_id
  | CancelRematch user_id
  | Text user_id "ustring option"
  | Button user_id "(user_id \<times> user_id) option"
  | Expire nat

fun step :: "env \<Rightarrow> bot \<Rightarrow> event \<Rightarrow> bot" where
  "step E s (Start u n) = cmd_start u n s"
| "step E s (Play u n) = cmd_play u n s"
| "step E s (Leave u) = cmd_leave u s"
| "step E s (Surrender u) = cmd_surrender u s"
| "step E s (CancelRematch u) = cmd_cancel_rematch u s"
| "step E s (Text u t) = handle_move E u t s"
| "step E s (Button u d) = callback_rematch u d s"
| "step E s (Expire t) = turn_timeout t s"

definition exec :: "env \<Rightarrow> bot \<Rightarrow> event list \<Rightarrow> bot" where
  "exec E s evs = foldl (step E) s evs"

subsection \<open>The move rules in the words of the specification\<close>

text \<open>
  The validation order of \<open>submitMove\<close> as the specification lists it, on the normalised
  word, for comparison with \<^verbatim>\<open>handle_move\<close>; and the reply that reports each
  rejection. \<open>WrongLetter\<close> is returned only when the session has a last letter, which its
  reply names; the other branch of that reply is never met.
\<close>

datatype rejection = NotYourTurn | InvalidWord | UnknownCity | AlreadyUsed | WrongLetter

datatype verdict = Rejected rejection | Accepted

definition spec_verdict :: "env \<Rightarrow> game \<Rightarrow> user_id \<Rightarrow> ustring \<Rightarrow> verdict" where
  "spec_verdict E g playerId word =
     (if playerId \<noteq> turn g then Rejected NotYourTurn
      else if word = [] then Rejected InvalidWord
      else if word \<notin> CITY_SET E then Rejected UnknownCity
      else if word \<in> used_cities g then Rejected AlreadyUsed
      else if (case last_letter g of None \<Rightarrow> False | Some l \<Rightarrow> hd word \<noteq> l)
        then Rejected WrongLetter
      else Accepted)"

fun reply_of :: "game \<Rightarrow> rejection \<Rightarrow> msg" where
  "reply_of g NotYourTurn = MsgNotYourTurn"
| "reply_of g InvalidWord = MsgInvalidWord"
| "reply_of g UnknownCity = MsgUnknownCity"
| "reply_of g AlreadyUsed = MsgAlreadyUsed"
| "reply_of g WrongLetter = (case last_letter g of Some l \<Rightarrow> MsgWrongLetter l | None \<Rightarrow> MsgInvalidWord)"

subsection \<open>A concrete run\<close>

text \<open>
  Players 1 and 2 have been paired by two \<^verbatim>\<open>/play\<close> commands: player 1 waited and
  moves first.
\<close>

definition paired :: bot where
  "paired = exec ru_env (init_bot Map.empty) [Play 1 None, Play 2 None]"

definition fresh_game :: game where
  "fresh_game = \<lparr> players = (1, 2), turn = 1, last_letter = None, used_cities = {},
                   timer_task = Some 0, moves = 0, last_move = None \<rparr>"

definition queued :: bot where
  "queued = exec ru_env (init_bot Map.empty) [Play 1 None]"

text \<open>
  The game of players 1 and 2 has ended by the surrender of player 1 and both hold the rematch
  button; then player 1 has pressed it; then, besides, player 2 has been paired with a player 3.
\<close>

definition ended :: bot where
  "ended = exec ru_env (init_bot Map.empty) [Play 1 None, Play 2 None, Surrender 1]"

definition one_consent :: bot where
  "one_consent = exec ru_env ended [Button 1 (Some (1, 2))]"

definition busy :: bot where
  "busy = exec ru_env one_consent [Play 2 None, Play 3 None]"

subsection \<open>Clocks along a run\<close>

text \<open>
  Every registered session holds a clock that sleeps and was started for the session's turn
  player.
\<close>

definition clocks_ok :: "bot \<Rightarrow> bool" where
  "clocks_ok s = (\<forall>gid g. games s gid = Some g \<longrightarrow>
     (\<exists>t. timer_task g = Some t \<and> t < length (tasks s)
        \<and> tasks s ! t = \<lparr>t_game = gid, t_user = turn g, t_status = Sleeping\<rparr>))"


text \<open>From \<open>s\<close> to \<open>s'\<close> no task is lost and no task that is not sleeping sleeps again.\<close>

definition status_mono :: "bot \<Rightarrow> bot \<Rightarrow> bool" where
  "status_mono s s' = (length (tasks s) \<le> length (tasks s')
     \<and> (\<forall>t<length (tasks s). t_status (tasks s ! t) \<noteq> Sleeping \<longrightarrow> t_status (tasks s' ! t) \<noteq> Sleeping))"



subsection \<open>Reachable states\<close>

text \<open>The pairs named on the rematch buttons the bot has sent.\<close>

definition buttons :: "bot \<Rightarrow> (user_id \<times> user_id) set" where
  "buttons s = {(a, b). \<exists>u. (u, MsgRematchButton a b) \<in> set (outbox s)}"

text \<open>Every registered session has two different players, and its turn is one of them.\<close>

definition turns_ok :: "bot \<Rightarrow> bool" where
  "turns_ok s = (\<forall>gid g. games s gid = Some g \<longrightarrow>
     fst (players g) \<noteq> snd (players g)
     \<and> (turn g = fst (players g) \<or> turn g = snd (players g)))"

text \<open>Every rematch button sent names two different players.\<close>

definition buttons_ok :: "bot \<Rightarrow> bool" where
  "buttons_ok s = (\<forall>a b. (a, b) \<in> buttons s \<longrightarrow> a \<noteq> b)"



section \<open>Properties of the normaliser\<close>

lemma yo_notin_replace_yo: "yo \<notin> set (replace_yo s)"
  by (auto simp: replace_yo_def yo_def ye_def)

lemma yo_notin_normalize_city: "yo \<notin> set (normalize_city E s)"
  by (simp add: normalize_city_def yo_notin_replace_yo)

lemma last_loop_find:
  "yo \<notin> set xs \<Longrightarrow> last_loop E xs = List.find (\<lambda>c. isalpha E c \<and> c \<notin> SKIP_LAST) xs"
  by (induction xs) (auto simp: Let_def)

lemma last_significant_letter_find:
  "last_significant_letter E w =
     List.find (\<lambda>c. isalpha E c \<and> c \<notin> SKIP_LAST) (rev (normalize_city E w))"
  using last_loop_find [of "rev (normalize_city E w)" E] yo_notin_normalize_city [of E w]
  by (auto simp: last_significant_letter_def Let_def)

lemma find_skip_suffix:
  "P a \<Longrightarrow> \<forall>c\<in>set suf. \<not> P c \<Longrightarrow> List.find P (rev (pre @ [a] @ suf)) = Some a"
  by (induction suf rule: rev_induct) auto

lemma find_none: "\<forall>c\<in>set xs. \<not> P c \<Longrightarrow> List.find P xs = None"
  by (induction xs) auto

lemma find_Some_member: "List.find P xs = Some c \<Longrightarrow> P c \<and> c \<in> set xs"
  by (induction xs) (auto split: if_splits)

text \<open>
  Claim C5. \<^verbatim>\<open>last_significant_letter\<close> reads the normalised word from its end,
  passes over every character that is not alphabetic or that belongs to
  \<^verbatim>\<open>SKIP_LAST\<close>, and returns the first character that is left; the normalised
  word holds no U+0451, so the letter returned has the variant mapping applied. A word whose
  eligible letter \<open>a\<close> is followed only by skip letters and non-letters yields \<open>a\<close>
  (for the name Uchaly the letter U+043B before the final U+044B); the empty
  string and a word made of skip letters only yield nothing.
\<close>

theorem last_significant_letter_scans_from_end:
  "last_significant_letter E w =
     List.find (\<lambda>c. isalpha E c \<and> c \<notin> SKIP_LAST) (rev (normalize_city E w))
   \<and> yo \<notin> set (normalize_city E w)
   \<and> (normalize_city E w = pre @ [a] @ suf \<and> isalpha E a \<and> a \<notin> SKIP_LAST
        \<and> (\<forall>c\<in>set suf. c \<in> SKIP_LAST \<or> \<not> isalpha E c)
      \<longrightarrow> last_significant_letter E w = Some a)
   \<and> last_significant_letter E [] = None
   \<and> ((\<forall>c\<in>set (normalize_city E w). c \<in> SKIP_LAST) \<longrightarrow> last_significant_letter E w = None)"
proof (intro conjI impI)
  show "last_significant_letter E w =
     List.find (\<lambda>c. isalpha E c \<and> c \<notin> SKIP_LAST) (rev (normalize_city E w))"
    by (rule last_significant_letter_find)
  show "yo \<notin> set (normalize_city E w)"
    by (rule yo_notin_normalize_city)
  show "last_significant_letter E w = Some a"
    if "normalize_city E w = pre @ [a] @ suf \<and> isalpha E a \<and> a \<notin> SKIP_LAST
        \<and> (\<forall>c\<in>set suf. c \<in> SKIP_LAST \<or> \<not> isalpha E c)"
    using that find_skip_suffix [of "\<lambda>c. isalpha E c \<and> c \<notin> SKIP_LAST" a suf pre]
    by (auto simp: last_significant_letter_find)
  show "last_significant_letter E [] = None"
    by (simp add: last_significant_letter_def normalize_city_def)
  show "last_significant_letter E w = None" if "\<forall>c\<in>set (normalize_city E w). c \<in> SKIP_LAST"
    using that find_none [of "rev (normalize_city E w)" "\<lambda>c. isalpha E c \<and> c \<notin> SKIP_LAST"]
    by (auto simp: last_significant_letter_find)
qed

text \<open>
  The theorem at the name Uchaly (normalised: U+0443 U+0447 U+0430 U+043B U+044B), whose last
  letter is the skip letter U+044B, and at the word U+044C U+044A made of skip letters.
\<close>

theorem last_significant_letter_scans_from_end_witness:
  "normalize_city ru_env Uchaly = [1091, 1095, 1072] @ [1083] @ [1099]
   \<and> isalpha ru_env 1083 \<and> 1083 \<notin> SKIP_LAST \<and> 1099 \<in> SKIP_LAST
   \<and> last_significant_letter ru_env Uchaly = Some 1083
   \<and> set (normalize_city ru_env [1100, 1098]) \<subseteq> SKIP_LAST
   \<and> last_significant_letter ru_env [1100, 1098] = None"
proof -
  have n: "normalize_city ru_env Uchaly = [1091, 1095, 1072] @ [1083] @ [1099]"
    by code_simp
  have a: "isalpha ru_env 1083" and b: "1083 \<notin> SKIP_LAST" and c: "1099 \<in> SKIP_LAST"
    by code_simp+
  have d: "set (normalize_city ru_env [1100, 1098]) \<subseteq> SKIP_LAST"
    by code_simp
  have c': "\<forall>c\<in>set [1099]. c \<in> SKIP_LAST \<or> \<not> isalpha ru_env c"
    using c by simp
  have "last_significant_letter ru_env Uchaly = Some 1083"
    using last_significant_letter_scans_from_end [of ru_env Uchaly "[1091, 1095, 1072]" 1083 "[1099]"]
      n a b c' by blast
  moreover have "last_significant_letter ru_env [1100, 1098] = None"
    using last_significant_letter_scans_from_end [of ru_env "[1100, 1098]"] d by blast
  ultimately show ?thesis using n a b c d by blast
qed

text \<open>
  Claim C10. Whatever the input, \<^verbatim>\<open>last_significant_letter\<close> returns nothing or
  one character; that character is alphabetic, is none of the four letters of
  \<^verbatim>\<open>SKIP_LAST\<close> (U+044C, U+044A, U+044B, U+0439) and is not U+0451. It is the letter
  the next player is asked for.
\<close>

theorem last_significant_letter_eligible:
  "last_significant_letter E w = Some c \<Longrightarrow>
     isalpha E c \<and> c \<notin> SKIP_LAST \<and> c \<noteq> soft_sign \<and> c \<noteq> hard_sign \<and> c \<noteq> yeru \<and> c \<noteq> short_i
     \<and> c \<noteq> yo"
proof -
  assume r: "last_significant_letter E w = Some c"
  then have f: "List.find (\<lambda>c. isalpha E c \<and> c \<notin> SKIP_LAST) (rev (normalize_city E w)) = Some c"
    by (simp add: last_significant_letter_find)
  then have "isalpha E c \<and> c \<notin> SKIP_LAST" and "c \<in> set (normalize_city E w)"
    using find_Some_member [OF f] by auto
  moreover have "yo \<notin> set (normalize_city E w)"
    by (rule yo_notin_normalize_city)
  ultimately show ?thesis
    by (auto simp: SKIP_LAST_def)
qed

theorem last_significant_letter_eligible_witness:
  "last_significant_letter ru_env Oryol = Some 1083
   \<and> isalpha ru_env 1083 \<and> 1083 \<notin> SKIP_LAST \<and> 1083 \<noteq> yo"
proof -
  have r: "last_significant_letter ru_env Oryol = Some 1083"
    by code_simp
  from last_significant_letter_eligible [OF r] r show ?thesis
    by blast
qed

section \<open>Properties of the statistics table\<close>



section \<open>Moves\<close>

lemma send_fields [simp]:
  "games (send u m s) = games s"
  "player_game (send u m s) = player_game s"
  "waiting_player (send u m s) = waiting_player s"
  "rematch_offers (send u m s) = rematch_offers s"
  "tasks (send u m s) = tasks s"
  "db (send u m s) = db s"
  "outbox (send u m s) = outbox s @ [(u, m)]"
  by (simp_all add: send_def)

lemma cancel_task_fields [simp]:
  "games (cancel_task t s) = games s"
  "player_game (cancel_task t s) = player_game s"
  "waiting_player (cancel_task t s) = waiting_player s"
  "rematch_offers (cancel_task t s) = rematch_offers s"
  "db (cancel_task t s) = db s"
  "outbox (cancel_task t s) = outbox s"
  "length (tasks (cancel_task t s)) = length (tasks s)"
  by (simp_all add: cancel_task_def)

lemma cancel_timer_of_fields [simp]:
  "games (cancel_timer_of g s) = games s"
  "player_game (cancel_timer_of g s) = player_game s"
  "waiting_player (cancel_timer_of g s) = waiting_player s"
  "rematch_offers (cancel_timer_of g s) = rematch_offers s"
  "db (cancel_timer_of g s) = db s"
  "outbox (cancel_timer_of g s) = outbox s"
  "length (tasks (cancel_timer_of g s)) = length (tasks s)"
  by (simp_all add: cancel_timer_of_def split: option.splits)

lemma handle_move_verdict:
  assumes "player_game s u = Some gid" and "games s gid = Some g"
  shows "handle_move E u text s =
     (case spec_verdict E g u (move_city E text) of
        Rejected r \<Rightarrow> send u (reply_of g r) s
      | Accepted \<Rightarrow> accept_move E gid g u (move_city E text) s)"
  using assms
  by (simp add: handle_move_def spec_verdict_def Let_def split: option.splits)

lemma accept_move_explicit:
  "accept_move E gid g u word s =
     s\<lparr>games := (games s)(gid \<mapsto>
          g\<lparr>used_cities := insert word (used_cities g), moves := moves g + 1,
            last_letter := last_significant_letter E word, last_move := Some (u, word),
            turn := (if snd (players g) = u then fst (players g) else snd (players g)),
            timer_task := Some (length (tasks s))\<rparr>),
       tasks :=
         (case timer_task g of
            None \<Rightarrow> tasks s
          | Some t \<Rightarrow> if t < length (tasks s) \<and> t_status (tasks s ! t) = Sleeping
                      then (tasks s)[t := (tasks s ! t)\<lparr>t_status := Cancelled\<rparr>] else tasks s)
         @ [\<lparr>t_game = gid,
             t_user = (if snd (players g) = u then fst (players g) else snd (players g)),
             t_status = Sleeping\<rparr>],
       outbox := outbox s @ [(u, MsgAccepted word),
         (if snd (players g) = u then fst (players g) else snd (players g),
          MsgOpponentMoved u word (last_significant_letter E word))]\<rparr>"
  by (simp add: accept_move_def Let_def opponent_of_def cancel_timer_of_def cancel_task_def
      send_def split: option.splits)

text \<open>
  Claim C2. For a player whose session is \<open>g\<close>, \<^verbatim>\<open>handle_move\<close> follows the
  validation order of the specification on the normalised text: a rejection sends its reply
  and nothing else; an accepted word is added to the used words, the move count grows by one,
  the last letter becomes the word's effective last letter, the last move is the mover with
  the word, the session's sleeping clock is cancelled, the turn goes to the other player and a
  new clock is started for that player. The mover and the opponent are told.
\<close>

theorem handle_move_validation_order:
  assumes "player_game s u = Some gid" and "games s gid = Some g"
  shows "handle_move E u text s =
     (case spec_verdict E g u (move_city E text) of
        Rejected r \<Rightarrow> send u (reply_of g r) s
      | Accepted \<Rightarrow>
          s\<lparr>games := (games s)(gid \<mapsto>
               g\<lparr>used_cities := insert (move_city E text) (used_cities g),
                 moves := moves g + 1,
                 last_letter := last_significant_letter E (move_city E text),
                 last_move := Some (u, move_city E text),
                 turn := (if snd (players g) = u then fst (players g) else snd (players g)),
                 timer_task := Some (length (tasks s))\<rparr>),
            tasks :=
              (case timer_task g of
                 None \<Rightarrow> tasks s
               | Some t \<Rightarrow> if t < length (tasks s) \<and> t_status (tasks s ! t) = Sleeping
                           then (tasks s)[t := (tasks s ! t)\<lparr>t_status := Cancelled\<rparr>]
                           else tasks s)
              @ [\<lparr>t_game = gid,
                  t_user = (if snd (players g) = u then fst (players g) else snd (players g)),
                  t_status = Sleeping\<rparr>],
            outbox := outbox s @ [(u, MsgAccepted (move_city E text)),
              (if snd (players g) = u then fst (players g) else snd (players g),
               MsgOpponentMoved u (move_city E text)
                 (last_significant_letter E (move_city E text)))]\<rparr>)"
  by (simp add: handle_move_verdict [OF assms] accept_move_explicit split: verdict.splits)

lemma paired_player_game_1: "player_game paired 1 = Some (1, 2)"
  unfolding paired_def by code_simp

lemma paired_player_game_2: "player_game paired 2 = Some (1, 2)"
  unfolding paired_def by code_simp

lemma paired_games: "games paired (1, 2) = Some fresh_game"
  unfolding paired_def by code_simp

lemma paired_tasks: "tasks paired = [\<lparr>t_game = (1, 2), t_user = 1, t_status = Sleeping\<rparr>]"
  unfolding paired_def by code_simp

text \<open>
  Player 1 opens with the name Moskva: accepted, the clock of player 1 is cancelled, the turn
  and a new clock go to player 2, and the next word must start with U+0430.
\<close>

theorem handle_move_validation_order_witness:
  "player_game paired 1 = Some (1, 2) \<and> games paired (1, 2) = Some fresh_game
   \<and> spec_verdict ru_env fresh_game 1 (move_city ru_env (Some Moskva)) = Accepted
   \<and> handle_move ru_env 1 (Some Moskva) paired =
       paired\<lparr>games := (games paired)((1, 2) \<mapsto>
                 \<lparr>players = (1, 2), turn = 2, last_letter = Some 1072, used_cities = {moskva},
                  timer_task = Some 1, moves = 1, last_move = Some (1, moskva)\<rparr>),
              tasks := [\<lparr>t_game = (1, 2), t_user = 1, t_status = Cancelled\<rparr>,
                        \<lparr>t_game = (1, 2), t_user = 2, t_status = Sleeping\<rparr>],
              outbox := outbox paired @ [(1, MsgAccepted moskva),
                                         (2, MsgOpponentMoved 1 moskva (Some 1072))]\<rparr>"
proof -
  have v: "spec_verdict ru_env fresh_game 1 (move_city ru_env (Some Moskva)) = Accepted"
    by code_simp
  have c: "move_city ru_env (Some Moskva) = moskva"
    by code_simp
  have l: "last_significant_letter ru_env moskva = Some 1072"
    by code_simp
  have "handle_move ru_env 1 (Some Moskva) paired =
       paired\<lparr>games := (games paired)((1, 2) \<mapsto>
                 \<lparr>players = (1, 2), turn = 2, last_letter = Some 1072, used_cities = {moskva},
                  timer_task = Some 1, moves = 1, last_move = Some (1, moskva)\<rparr>),
              tasks := [\<lparr>t_game = (1, 2), t_user = 1, t_status = Cancelled\<rparr>,
                        \<lparr>t_game = (1, 2), t_user = 2, t_status = Sleeping\<rparr>],
              outbox := outbox paired @ [(1, MsgAccepted moskva),
                                         (2, MsgOpponentMoved 1 moskva (Some 1072))]\<rparr>"
    using handle_move_validation_order
      [OF paired_player_game_1 paired_games, of ru_env "Some Moskva", unfolded v verdict.case,
        unfolded c l]
    by (simp add: paired_tasks fresh_game_def)
  then show ?thesis
    using v paired_player_game_1 paired_games by blast
qed

text \<open>
  Claim C4. A move that the validation rejects, for any of the five reasons, changes nothing
  but the log of sent messages, which gains the one reply to the submitting player: the
  session (turn, used words, last letter, last move, move count and the clock it holds) and
  the task table are what they were.
\<close>

theorem rejected_move_changes_nothing:
  assumes "player_game s u = Some gid" and "games s gid = Some g"
    and "spec_verdict E g u (move_city E text) = Rejected r"
  shows "handle_move E u text s = s\<lparr>outbox := outbox s @ [(u, reply_of g r)]\<rparr>
    \<and> games (handle_move E u text s) gid = Some g
    \<and> tasks (handle_move E u text s) = tasks s
    \<and> reply_of g r \<in> {MsgNotYourTurn, MsgInvalidWord, MsgUnknownCity, MsgAlreadyUsed}
                     \<union> range MsgWrongLetter"
proof -
  have "handle_move E u text s = send u (reply_of g r) s"
    by (simp add: handle_move_verdict [OF assms(1,2)] assms(3))
  moreover have "reply_of g r \<in> {MsgNotYourTurn, MsgInvalidWord, MsgUnknownCity, MsgAlreadyUsed}
                     \<union> range MsgWrongLetter"
    by (cases r) (auto split: option.splits)
  ultimately show ?thesis
    using assms(2) by (simp add: send_def)
qed

text \<open>Player 2 answers out of turn, and player 1 sends a name that is not in the file.\<close>

theorem rejected_move_changes_nothing_witness:
  "player_game paired 2 = Some (1, 2) \<and> games paired (1, 2) = Some fresh_game
   \<and> spec_verdict ru_env fresh_game 2 (move_city ru_env (Some Moskva)) = Rejected NotYourTurn
   \<and> handle_move ru_env 2 (Some Moskva) paired = paired\<lparr>outbox := outbox paired @ [(2, MsgNotYourTurn)]\<rparr>
   \<and> games (handle_move ru_env 2 (Some Moskva) paired) (1, 2) = Some fresh_game
   \<and> spec_verdict ru_env fresh_game 1 (move_city ru_env (Some [77, 97, 114, 115])) = Rejected UnknownCity
   \<and> handle_move ru_env 1 (Some [77, 97, 114, 115]) paired
       = paired\<lparr>outbox := outbox paired @ [(1, MsgUnknownCity)]\<rparr>"
proof -
  have v: "spec_verdict ru_env fresh_game 2 (move_city ru_env (Some Moskva)) = Rejected NotYourTurn"
    by code_simp
  have w: "spec_verdict ru_env fresh_game 1 (move_city ru_env (Some [77, 97, 114, 115])) = Rejected UnknownCity"
    by code_simp
  show ?thesis
    using rejected_move_changes_nothing [OF paired_player_game_2 paired_games v]
      rejected_move_changes_nothing [OF paired_player_game_1 paired_games w]
      v w paired_player_game_2 paired_games
    by simp
qed

section \<open>Matchmaking\<close>


lemma create_game_between_fresh:
  "games s (make_game_id p1 p2) = None \<Longrightarrow>
   create_game_between p1 p2 (Some f) s =
     s\<lparr>games := (games s)(make_game_id p1 p2 \<mapsto>
          \<lparr>players = (p1, p2), turn = f, last_letter = None, used_cities = {},
           timer_task = Some (length (tasks s)), moves = 0, last_move = None\<rparr>),
       player_game := (player_game s)(p1 \<mapsto> make_game_id p1 p2, p2 \<mapsto> make_game_id p1 p2),
       tasks := tasks s @ [\<lparr>t_game = make_game_id p1 p2, t_user = f, t_status = Sleeping\<rparr>],
       outbox := outbox s @ [(p1, MsgGameStarted (f = p1)), (p2, MsgGameStartedWait p1),
                             (f, MsgYourTurn None),
                             (if p2 = f then p1 else p2, MsgAwaitingOpponent f)]\<rparr>"
  by (simp add: create_game_between_def Let_def start_turn_def send_def cancel_timer_of_def
      opponent_of_def)

text \<open>
  Claim C6, as the code has it. A requester who is in a session is told so and is not queued,
  whoever is waiting. For a requester who is in no session: with nobody waiting the requester
  becomes the waiting player and is told so, and no session is created; the waiting player
  asking again is told so and nothing else changes; with another player waiting, who is in no
  session either, and no session registered for the two, the slot is cleared and a session of
  the two is registered in which the player who waited moves first. Each request also upserts
  the requester's row of the statistics table.
\<close>

theorem cmd_play_cases:
  "(player_game s u \<noteq> None \<longrightarrow>
      cmd_play u n s = send u MsgAlreadyInGame (s\<lparr>db := add_or_update_player (db s) u n\<rparr>))
   \<and> (player_game s u = None \<and> waiting_player s = None \<longrightarrow>
      cmd_play u n s =
        s\<lparr>db := add_or_update_player (db s) u n, waiting_player := Some u,
          outbox := outbox s @ [(u, MsgQueued)]\<rparr>
      \<and> games (cmd_play u n s) = games s)
   \<and> (player_game s u = None \<and> waiting_player s = Some u \<longrightarrow>
      cmd_play u n s =
        s\<lparr>db := add_or_update_player (db s) u n, outbox := outbox s @ [(u, MsgAlreadyQueued)]\<rparr>
      \<and> games (cmd_play u n s) = games s \<and> waiting_player (cmd_play u n s) = Some u)
   \<and> (player_game s u = None \<and> waiting_player s = Some w \<and> w \<noteq> u \<and> player_game s w = None
        \<and> games s (make_game_id w u) = None \<longrightarrow>
      cmd_play u n s =
        s\<lparr>db := add_or_update_player (db s) u n, waiting_player := None,
          games := (games s)(make_game_id w u \<mapsto>
            \<lparr>players = (w, u), turn = w, last_letter = None, used_cities = {},
             timer_task = Some (length (tasks s)), moves = 0, last_move = None\<rparr>),
          player_game := (player_game s)(w \<mapsto> make_game_id w u, u \<mapsto> make_game_id w u),
          tasks := tasks s @ [\<lparr>t_game = make_game_id w u, t_user = w, t_status = Sleeping\<rparr>],
          outbox := outbox s @ [(w, MsgGameStarted True), (u, MsgGameStartedWait w),
                                (w, MsgYourTurn None), (u, MsgAwaitingOpponent w)]\<rparr>)"
  by (auto simp: cmd_play_def Let_def is_user_in_game_def send_def create_game_between_fresh)

lemma queued_facts:
  "player_game queued 1 = None" "player_game queued 2 = None" "waiting_player queued = Some 1"
  "games queued (1, 2) = None" "tasks queued = []"
  unfolding queued_def by code_simp+

text \<open>
  The four cases: player 1 asks while paired with player 2; player 1 asks first; player 1 asks
  again while waiting; player 2 asks while player 1 waits.
\<close>

theorem cmd_play_cases_witness:
  "player_game paired 1 = Some (1, 2)
   \<and> cmd_play 1 None paired
       = send 1 MsgAlreadyInGame (paired\<lparr>db := add_or_update_player (db paired) 1 None\<rparr>)
   \<and> waiting_player (cmd_play 1 None (init_bot Map.empty)) = Some 1
   \<and> games (cmd_play 1 None (init_bot Map.empty)) = Map.empty
   \<and> waiting_player queued = Some 1
   \<and> outbox (cmd_play 1 None queued) = outbox queued @ [(1, MsgAlreadyQueued)]
   \<and> games (cmd_play 1 None queued) = games queued
   \<and> waiting_player (cmd_play 2 None queued) = None
   \<and> games (cmd_play 2 None queued) (1, 2) =
       Some \<lparr>players = (1, 2), turn = 1, last_letter = None, used_cities = {},
             timer_task = Some 0, moves = 0, last_move = None\<rparr>"
proof -
  have a: "cmd_play 1 None paired
       = send 1 MsgAlreadyInGame (paired\<lparr>db := add_or_update_player (db paired) 1 None\<rparr>)"
    using cmd_play_cases [of paired 1 None] paired_player_game_1 by simp
  have i: "player_game (init_bot Map.empty) 1 = None" "waiting_player (init_bot Map.empty) = None"
    "games (init_bot Map.empty) = Map.empty"
    by (simp_all add: init_bot_def)
  have b: "waiting_player (cmd_play 1 None (init_bot Map.empty)) = Some 1
      \<and> games (cmd_play 1 None (init_bot Map.empty)) = Map.empty"
    using cmd_play_cases [of "init_bot Map.empty" 1 None] i by simp
  have c: "outbox (cmd_play 1 None queued) = outbox queued @ [(1, MsgAlreadyQueued)]
      \<and> games (cmd_play 1 None queued) = games queued"
    using cmd_play_cases [of queued 1 None] queued_facts by simp
  have m: "make_game_id 1 2 = (1, 2)"
    by (simp add: make_game_id_def)
  have d: "waiting_player (cmd_play 2 None queued) = None
      \<and> games (cmd_play 2 None queued) (1, 2) =
       Some \<lparr>players = (1, 2), turn = 1, last_letter = None, used_cities = {},
             timer_task = Some 0, moves = 0, last_move = None\<rparr>"
    using cmd_play_cases [of queued 2 None 1] queued_facts m by simp
  show ?thesis
    using a b c d paired_player_game_1 queued_facts(3) by blast
qed

text \<open>
  The claim as it was stated fails when the requester is in a session: after the two
  \<^verbatim>\<open>/play\<close> requests that pair players 1 and 2 nobody is waiting, and a third
  request, by player 1, leaves the slot empty and is answered with the refusal.
\<close>

theorem play_in_session_is_not_queued:
  "waiting_player (exec ru_env (init_bot Map.empty) [Play 1 None, Play 2 None]) = None
   \<and> waiting_player (exec ru_env (init_bot Map.empty) [Play 1 None, Play 2 None, Play 1 None]) = None
   \<and> last (outbox (exec ru_env (init_bot Map.empty) [Play 1 None, Play 2 None, Play 1 None]))
       = (1, MsgAlreadyInGame)"
  by code_simp

section \<open>Rematch\<close>

lemma pair_key_set: "{fst (pair_key p1 p2), snd (pair_key p1 p2)} = {p1, p2}"
  by (auto simp: pair_key_def min_def max_def)

lemma callback_withdraw:
  assumes "u \<in> offers_of s (pair_key p1 p2)"
  shows "callback_rematch u (Some (p1, p2)) s =
    s\<lparr>rematch_offers :=
        (if offers_of s (pair_key p1 p2) - {u} = {}
         then AList.delete (pair_key p1 p2) (rematch_offers s)
         else AList.update (pair_key p1 p2) (offers_of s (pair_key p1 p2) - {u}) (rematch_offers s)),
      outbox := outbox s @ [(u, MsgConsentWithdrawn), (if p2 = u then p1 else p2, MsgOpponentWithdrew)]\<rparr>"
  using assms by (simp add: callback_rematch_def Let_def send_def delete_update_same)

lemma callback_consent_first:
  assumes "u \<notin> offers_of s (pair_key p1 p2)"
    and "insert u (offers_of s (pair_key p1 p2)) \<noteq> {p1, p2}"
  shows "callback_rematch u (Some (p1, p2)) s =
    s\<lparr>rematch_offers :=
        AList.update (pair_key p1 p2) (insert u (offers_of s (pair_key p1 p2))) (rematch_offers s),
      outbox := outbox s @ [(u, MsgConsentGiven), (if p2 = u then p1 else p2, MsgOpponentConsented)]\<rparr>"
  using assms by (simp add: callback_rematch_def Let_def send_def pair_key_set)

lemma callback_consent_aborted:
  assumes "u \<notin> offers_of s (pair_key p1 p2)"
    and "insert u (offers_of s (pair_key p1 p2)) = {p1, p2}"
    and "player_game s p1 \<noteq> None \<or> player_game s p2 \<noteq> None"
  shows "callback_rematch u (Some (p1, p2)) s =
    s\<lparr>rematch_offers := AList.delete (pair_key p1 p2) (rematch_offers s),
      outbox := outbox s @ [(u, MsgConsentGiven), (if p2 = u then p1 else p2, MsgOpponentConsented),
         (p1, MsgRematchAborted), (p2, MsgRematchAborted)]\<rparr>"
  using assms
  by (auto simp add: callback_rematch_def Let_def send_def delete_update_same is_user_in_game_def
      pair_key_set)

lemma callback_consent_created:
  assumes "u \<notin> offers_of s (pair_key p1 p2)"
    and "insert u (offers_of s (pair_key p1 p2)) = {p1, p2}"
    and "player_game s p1 = None" and "player_game s p2 = None"
    and "games s (make_game_id p1 p2) = None"
  shows "callback_rematch u (Some (p1, p2)) s =
    s\<lparr>rematch_offers := AList.delete (pair_key p1 p2) (rematch_offers s),
      games := (games s)(make_game_id p1 p2 \<mapsto>
          \<lparr>players = (p1, p2), turn = p1, last_letter = None, used_cities = {},
           timer_task = Some (length (tasks s)), moves = 0, last_move = None\<rparr>),
      player_game := (player_game s)(p1 \<mapsto> make_game_id p1 p2, p2 \<mapsto> make_game_id p1 p2),
      tasks := tasks s @ [\<lparr>t_game = make_game_id p1 p2, t_user = p1, t_status = Sleeping\<rparr>],
      outbox := outbox s @ [(u, MsgConsentGiven), (if p2 = u then p1 else p2, MsgOpponentConsented),
         (p1, MsgGameStarted True), (p2, MsgGameStartedWait p1), (p1, MsgYourTurn None),
         (p2, MsgAwaitingOpponent p1)]\<rparr>"
  using assms
  by (simp add: callback_rematch_def Let_def send_def delete_update_same is_user_in_game_def
      create_game_between_fresh pair_key_set)

lemma end_game_offers:
  assumes "games s gid = Some g"
  shows "games (end_game gid w why s) gid = None"
    "(fst (players g), MsgRematchButton (fst (players g)) (snd (players g)))
       \<in> set (outbox (end_game gid w why s))"
    "(snd (players g), MsgRematchButton (fst (players g)) (snd (players g)))
       \<in> set (outbox (end_game gid w why s))"
  using assms
  by (simp_all add: end_game_def Let_def offer_rematch_to_players_def split: option.splits)

lemma withdraw_then_other_alone:
  assumes "a \<noteq> b" and "{a, b} = {p1, p2}" and "offers_of s (pair_key p1 p2) = {a}"
  shows "games (callback_rematch b (Some (p1, p2)) (callback_rematch a (Some (p1, p2)) s)) = games s"
    "offers_of (callback_rematch b (Some (p1, p2)) (callback_rematch a (Some (p1, p2)) s))
       (pair_key p1 p2) = {b}"
proof -
  let ?k = "pair_key p1 p2"
  let ?s1 = "callback_rematch a (Some (p1, p2)) s"
  have s1: "?s1 = s\<lparr>rematch_offers := AList.delete ?k (rematch_offers s),
      outbox := outbox s @ [(a, MsgConsentWithdrawn), (if p2 = a then p1 else p2, MsgOpponentWithdrew)]\<rparr>"
    using callback_withdraw [of a s p1 p2] assms(3) by simp
  have o1: "offers_of ?s1 ?k = {}"
    by (simp add: s1 offers_of_def delete_conv')
  have ne: "insert b (offers_of ?s1 ?k) \<noteq> {p1, p2}"
    using assms(1,2) o1 by auto
  have s2: "callback_rematch b (Some (p1, p2)) ?s1 =
      ?s1\<lparr>rematch_offers := AList.update ?k (insert b (offers_of ?s1 ?k)) (rematch_offers ?s1),
        outbox := outbox ?s1 @ [(b, MsgConsentGiven), (if p2 = b then p1 else p2, MsgOpponentConsented)]\<rparr>"
    using callback_consent_first [of b ?s1 p1 p2] o1 ne by simp
  show "games (callback_rematch b (Some (p1, p2)) ?s1) = games s"
    by (simp add: s2) (simp add: s1)
  show "offers_of (callback_rematch b (Some (p1, p2)) ?s1) ?k = {b}"
    by (simp add: s2 o1) (simp add: offers_of_def update_conv')
qed

text \<open>
  Claim C7, as the code has it. A rematch button carries two player ids \<open>p1\<close>, \<open>p2\<close>; the
  consents are kept under the unordered pair. A press by a player who has consented withdraws
  the consent (the entry is dropped when it becomes empty) and creates nothing; a press by a
  player who has not consented adds the consent and creates nothing as long as the consents
  are not exactly the two players; after a withdrawal the other player consenting alone
  creates nothing. When the consents become exactly the two players the entry is dropped and
  then: if either player is in a session both are notified and nothing is created; if neither
  is and no session is registered for the pair, a session with players \<open>(p1, p2)\<close> is
  registered in which \<open>p1\<close>, the player named first on the pressed button, moves first.
  The buttons offered at the end of a game name its players in their stored order.
\<close>

theorem callback_rematch_cases:
  assumes "key = pair_key p1 p2" and "offers = offers_of s key"
    and "other = (if p2 = u then p1 else p2)"
  shows
  "(u \<in> offers \<longrightarrow>
      callback_rematch u (Some (p1, p2)) s =
        s\<lparr>rematch_offers :=
            (if offers - {u} = {} then AList.delete key (rematch_offers s)
             else AList.update key (offers - {u}) (rematch_offers s)),
          outbox := outbox s @ [(u, MsgConsentWithdrawn), (other, MsgOpponentWithdrew)]\<rparr>)
   \<and> (u \<notin> offers \<and> insert u offers \<noteq> {p1, p2} \<longrightarrow>
      callback_rematch u (Some (p1, p2)) s =
        s\<lparr>rematch_offers := AList.update key (insert u offers) (rematch_offers s),
          outbox := outbox s @ [(u, MsgConsentGiven), (other, MsgOpponentConsented)]\<rparr>)
   \<and> (a \<noteq> b \<and> {a, b} = {p1, p2} \<and> offers = {a} \<longrightarrow>
      games (callback_rematch b (Some (p1, p2)) (callback_rematch a (Some (p1, p2)) s)) = games s
      \<and> offers_of (callback_rematch b (Some (p1, p2)) (callback_rematch a (Some (p1, p2)) s)) key
          = {b})
   \<and> (u \<notin> offers \<and> insert u offers = {p1, p2}
        \<and> (player_game s p1 \<noteq> None \<or> player_game s p2 \<noteq> None) \<longrightarrow>
      callback_rematch u (Some (p1, p2)) s =
        s\<lparr>rematch_offers := AList.delete key (rematch_offers s),
          outbox := outbox s @ [(u, MsgConsentGiven), (other, MsgOpponentConsented),
             (p1, MsgRematchAborted), (p2, MsgRematchAborted)]\<rparr>)
   \<and> (u \<notin> offers \<and> insert u offers = {p1, p2}
        \<and> player_game s p1 = None \<and> player_game s p2 = None
        \<and> games s (make_game_id p1 p2) = None \<longrightarrow>
      callback_rematch u (Some (p1, p2)) s =
        s\<lparr>rematch_offers := AList.delete key (rematch_offers s),
          games := (games s)(make_game_id p1 p2 \<mapsto>
            \<lparr>players = (p1, p2), turn = p1, last_letter = None, used_cities = {},
             timer_task = Some (length (tasks s)), moves = 0, last_move = None\<rparr>),
          player_game := (player_game s)(p1 \<mapsto> make_game_id p1 p2, p2 \<mapsto> make_game_id p1 p2),
          tasks := tasks s @ [\<lparr>t_game = make_game_id p1 p2, t_user = p1, t_status = Sleeping\<rparr>],
          outbox := outbox s @ [(u, MsgConsentGiven), (other, MsgOpponentConsented),
             (p1, MsgGameStarted True), (p2, MsgGameStartedWait p1), (p1, MsgYourTurn None),
             (p2, MsgAwaitingOpponent p1)]\<rparr>)
   \<and> (games s gid = Some g \<longrightarrow>
      games (end_game gid w why s) gid = None
      \<and> (fst (players g), MsgRematchButton (fst (players g)) (snd (players g)))
           \<in> set (outbox (end_game gid w why s))
      \<and> (snd (players g), MsgRematchButton (fst (players g)) (snd (players g)))
           \<in> set (outbox (end_game gid w why s)))"
proof (intro conjI impI)
  assume "u \<in> offers"
  then show "callback_rematch u (Some (p1, p2)) s =
        s\<lparr>rematch_offers :=
            (if offers - {u} = {} then AList.delete key (rematch_offers s)
             else AList.update key (offers - {u}) (rematch_offers s)),
          outbox := outbox s @ [(u, MsgConsentWithdrawn), (other, MsgOpponentWithdrew)]\<rparr>"
    using callback_withdraw [of u s p1 p2] assms by simp
next
  assume "u \<notin> offers \<and> insert u offers \<noteq> {p1, p2}"
  then show "callback_rematch u (Some (p1, p2)) s =
        s\<lparr>rematch_offers := AList.update key (insert u offers) (rematch_offers s),
          outbox := outbox s @ [(u, MsgConsentGiven), (other, MsgOpponentConsented)]\<rparr>"
    using callback_consent_first [of u s p1 p2] assms by simp
next
  assume h: "a \<noteq> b \<and> {a, b} = {p1, p2} \<and> offers = {a}"
  then have o: "offers_of s (pair_key p1 p2) = {a}"
    using assms by simp
  show "games (callback_rematch b (Some (p1, p2)) (callback_rematch a (Some (p1, p2)) s)) = games s"
    using withdraw_then_other_alone(1) [of a b p1 p2 s] h o by blast
  show "offers_of (callback_rematch b (Some (p1, p2)) (callback_rematch a (Some (p1, p2)) s)) key
          = {b}"
    using withdraw_then_other_alone(2) [of a b p1 p2 s] h o assms(1) by blast
next
  assume "u \<notin> offers \<and> insert u offers = {p1, p2}
        \<and> (player_game s p1 \<noteq> None \<or> player_game s p2 \<noteq> None)"
  then show "callback_rematch u (Some (p1, p2)) s =
        s\<lparr>rematch_offers := AList.delete key (rematch_offers s),
          outbox := outbox s @ [(u, MsgConsentGiven), (other, MsgOpponentConsented),
             (p1, MsgRematchAborted), (p2, MsgRematchAborted)]\<rparr>"
    using callback_consent_aborted [of u s p1 p2] assms by simp
next
  assume "u \<notin> offers \<and> insert u offers = {p1, p2}
        \<and> player_game s p1 = None \<and> player_game s p2 = None
        \<and> games s (make_game_id p1 p2) = None"
  then show "callback_rematch u (Some (p1, p2)) s =
        s\<lparr>rematch_offers := AList.delete key (rematch_offers s),
          games := (games s)(make_game_id p1 p2 \<mapsto>
            \<lparr>players = (p1, p2), turn = p1, last_letter = None, used_cities = {},
             timer_task = Some (length (tasks s)), moves = 0, last_move = None\<rparr>),
          player_game := (player_game s)(p1 \<mapsto> make_game_id p1 p2, p2 \<mapsto> make_game_id p1 p2),
          tasks := tasks s @ [\<lparr>t_game = make_game_id p1 p2, t_user = p1, t_status = Sleeping\<rparr>],
          outbox := outbox s @ [(u, MsgConsentGiven), (other, MsgOpponentConsented),
             (p1, MsgGameStarted True), (p2, MsgGameStartedWait p1), (p1, MsgYourTurn None),
             (p2, MsgAwaitingOpponent p1)]\<rparr>"
    using callback_consent_created [of u s p1 p2] assms by simp
next
  assume g: "games s gid = Some g"
  show "games (end_game gid w why s) gid = None"
    by (rule end_game_offers(1) [OF g])
  show "(fst (players g), MsgRematchButton (fst (players g)) (snd (players g)))
           \<in> set (outbox (end_game gid w why s))"
    by (rule end_game_offers(2) [OF g])
  show "(snd (players g), MsgRematchButton (fst (players g)) (snd (players g)))
           \<in> set (outbox (end_game gid w why s))"
    by (rule end_game_offers(3) [OF g])
qed

lemma one_consent_facts:
  "offers_of ended (pair_key 1 2) = {}"
  "offers_of one_consent (pair_key 1 2) = {1}"
  "player_game one_consent 1 = None" "player_game one_consent 2 = None"
  "games one_consent (make_game_id 1 2) = None"
  "offers_of busy (pair_key 1 2) = {1}"
  "player_game busy 2 = Some (2, 3)"
  unfolding one_consent_def ended_def busy_def by code_simp+

text \<open>
  The cases at the players 1 and 2 after their game: the first consent, its withdrawal, the
  other player consenting alone after the withdrawal, the second consent while player 2 is in
  another session, the second consent with both free, and the buttons offered at the end of
  their game.
\<close>

theorem callback_rematch_cases_witness:
  "offers_of ended (pair_key 1 2) = {}
   \<and> offers_of (callback_rematch 1 (Some (1, 2)) ended) (pair_key 1 2) = {1}
   \<and> games (callback_rematch 1 (Some (1, 2)) ended) = games ended
   \<and> offers_of one_consent (pair_key 1 2) = {1}
   \<and> offers_of (callback_rematch 1 (Some (1, 2)) one_consent) (pair_key 1 2) = {}
   \<and> games (callback_rematch 1 (Some (1, 2)) one_consent) = games one_consent
   \<and> games (callback_rematch 2 (Some (1, 2)) (callback_rematch 1 (Some (1, 2)) one_consent))
       = games one_consent
   \<and> player_game busy 2 = Some (2, 3)
   \<and> games (callback_rematch 2 (Some (1, 2)) busy) = games busy
   \<and> outbox (callback_rematch 2 (Some (1, 2)) busy)
       = outbox busy @ [(2, MsgConsentGiven), (1, MsgOpponentConsented),
                        (1, MsgRematchAborted), (2, MsgRematchAborted)]
   \<and> games one_consent (make_game_id 1 2) = None
   \<and> games (callback_rematch 2 (Some (1, 2)) one_consent) (make_game_id 1 2)
       = Some \<lparr>players = (1, 2), turn = 1, last_letter = None, used_cities = {},
               timer_task = Some (length (tasks one_consent)), moves = 0, last_move = None\<rparr>
   \<and> games paired (1, 2) = Some fresh_game
   \<and> (1, MsgRematchButton 1 2) \<in> set (outbox (end_game (1, 2) (Some 2) Surrendered paired))"
proof -
  note f = one_consent_facts
  have a: "offers_of (callback_rematch 1 (Some (1, 2)) ended) (pair_key 1 2) = {1}
      \<and> games (callback_rematch 1 (Some (1, 2)) ended) = games ended"
    using callback_rematch_cases [of "pair_key 1 2" 1 2 "{}" ended 2 1, OF refl] f(1)
    by (simp add: offers_of_def update_conv')
  have b: "offers_of (callback_rematch 1 (Some (1, 2)) one_consent) (pair_key 1 2) = {}
      \<and> games (callback_rematch 1 (Some (1, 2)) one_consent) = games one_consent"
    using callback_rematch_cases [of "pair_key 1 2" 1 2 "{1}" one_consent 2 1, OF refl] f(2)
    by (simp add: offers_of_def delete_conv')
  have c: "games (callback_rematch 2 (Some (1, 2)) (callback_rematch 1 (Some (1, 2)) one_consent))
       = games one_consent"
    using callback_rematch_cases [of "pair_key 1 2" 1 2 "{1}" one_consent 2 3 1 2, OF refl] f(2)
    by simp
  have d: "games (callback_rematch 2 (Some (1, 2)) busy) = games busy
      \<and> outbox (callback_rematch 2 (Some (1, 2)) busy)
       = outbox busy @ [(2, MsgConsentGiven), (1, MsgOpponentConsented),
                        (1, MsgRematchAborted), (2, MsgRematchAborted)]"
    using callback_rematch_cases [of "pair_key 1 2" 1 2 "{1}" busy 1 2, OF refl] f(6,7)
    by (simp add: insert_commute)
  have e: "games (callback_rematch 2 (Some (1, 2)) one_consent) (make_game_id 1 2)
       = Some \<lparr>players = (1, 2), turn = 1, last_letter = None, used_cities = {},
               timer_task = Some (length (tasks one_consent)), moves = 0, last_move = None\<rparr>"
    using callback_rematch_cases [of "pair_key 1 2" 1 2 "{1}" one_consent 1 2, OF refl] f(2,3,4,5)
    by (simp add: insert_commute)
  have po: "offers_of paired (pair_key 1 2) = {}"
    unfolding paired_def by code_simp
  have g: "(1, MsgRematchButton 1 2) \<in> set (outbox (end_game (1, 2) (Some 2) Surrendered paired))"
    using callback_rematch_cases [of "pair_key 1 2" 1 2 "{}" paired 2 1 1 2 "(1, 2)" fresh_game "Some 2" Surrendered]
      paired_games po
    by (simp add: fresh_game_def)
  show ?thesis
    using a b c d e g f paired_games by blast
qed

text \<open>
  The claim as it was stated fails on the first mover. Players 1 and 2 play a game that player
  1 opens, then a game that player 2 opens; each end offers buttons, the first naming the
  players as \<open>(1, 2)\<close>, the second as \<open>(2, 1)\<close>. Player 1 presses the later button
  and player 2 completes the consent on the earlier one: the rematch is opened by player 1,
  though player 2 opened the game before it.
\<close>

theorem rematch_first_mover_follows_button:
  "map_option turn (games (exec ru_env (init_bot Map.empty)
       [Play 1 None, Play 2 None, Surrender 1, Play 2 None, Play 1 None]) (1, 2)) = Some 2
   \<and> map_option moves (games (exec ru_env (init_bot Map.empty)
       [Play 1 None, Play 2 None, Surrender 1, Play 2 None, Play 1 None]) (1, 2)) = Some 0
   \<and> games (exec ru_env (init_bot Map.empty)
       [Play 1 None, Play 2 None, Surrender 1, Play 2 None, Play 1 None, Surrender 1]) (1, 2) = None
   \<and> (2, MsgRematchButton 1 2) \<in> set (outbox (exec ru_env (init_bot Map.empty)
       [Play 1 None, Play 2 None, Surrender 1, Play 2 None, Play 1 None, Surrender 1]))
   \<and> (1, MsgRematchButton 2 1) \<in> set (outbox (exec ru_env (init_bot Map.empty)
       [Play 1 None, Play 2 None, Surrender 1, Play 2 None, Play 1 None, Surrender 1]))
   \<and> games (exec ru_env (init_bot Map.empty)
       [Play 1 None, Play 2 None, Surrender 1, Play 2 None, Play 1 None, Surrender 1,
        Button 1 (Some (2, 1)), Button 2 (Some (1, 2))]) (1, 2)
     = Some \<lparr>players = (1, 2), turn = 1, last_letter = None, used_cities = {},
             timer_task = Some 2, moves = 0, last_move = None\<rparr>"
  by code_simp


section \<open>One session per player\<close>

text \<open>
  Claim C1 does not hold of the code. \<^verbatim>\<open>cmd_play\<close> refuses a requester who is in a
  session and \<^verbatim>\<open>callback_rematch\<close> refuses a rematch when either player is in one,
  but the waiting player is not looked at when a second player asks to play, and a rematch
  does not clear the waiting slot. Players 1 and 3 play and player 1 surrenders; player 1
  queues; both press the rematch button, which registers their session while player 1 is
  still waiting; player 2 asks to play and is paired with player 1. Player 1 is then a player
  of two registered sessions.
\<close>

theorem waiting_player_double_booked:
  "player_game (exec ru_env (init_bot Map.empty)
      [Play 1 None, Play 3 None, Surrender 1, Play 1 None,
       Button 1 (Some (1, 3)), Button 3 (Some (1, 3))]) 1 = Some (1, 3)
   \<and> waiting_player (exec ru_env (init_bot Map.empty)
      [Play 1 None, Play 3 None, Surrender 1, Play 1 None,
       Button 1 (Some (1, 3)), Button 3 (Some (1, 3))]) = Some 1
   \<and> games (exec ru_env (init_bot Map.empty)
      [Play 1 None, Play 3 None, Surrender 1, Play 1 None,
       Button 1 (Some (1, 3)), Button 3 (Some (1, 3))]) (1, 2) = None
   \<and> map_option players (games (exec ru_env (init_bot Map.empty)
      [Play 1 None, Play 3 None, Surrender 1, Play 1 None,
       Button 1 (Some (1, 3)), Button 3 (Some (1, 3)), Play 2 None]) (1, 3)) = Some (1, 3)
   \<and> map_option players (games (exec ru_env (init_bot Map.empty)
      [Play 1 None, Play 3 None, Surrender 1, Play 1 None,
       Button 1 (Some (1, 3)), Button 3 (Some (1, 3)), Play 2 None]) (1, 2)) = Some (1, 2)
   \<and> player_game (exec ru_env (init_bot Map.empty)
      [Play 1 None, Play 3 None, Surrender 1, Play 1 None,
       Button 1 (Some (1, 3)), Button 3 (Some (1, 3)), Play 2 None]) 1 = Some (1, 2)"
  by code_simp

section \<open>Moves and timeouts\<close>


























lemma clocks_ok_send [simp]: "clocks_ok (send u m s) = clocks_ok s"
  by (simp add: clocks_ok_def)




lemma set_status_fields [simp]:
  "games (set_status t st s) = games s"
  "player_game (set_status t st s) = player_game s"
  "waiting_player (set_status t st s) = waiting_player s"
  "rematch_offers (set_status t st s) = rematch_offers s"
  "db (set_status t st s) = db s"
  "outbox (set_status t st s) = outbox s"
  "length (tasks (set_status t st s)) = length (tasks s)"
  by (simp_all add: set_status_def)












lemma fold_send_fields [simp]:
  "games (fold (\<lambda>other. send other m) xs s) = games s"
  "tasks (fold (\<lambda>other. send other m) xs s) = tasks s"
  "player_game (fold (\<lambda>other. send other m) xs s) = player_game s"
  "outbox (fold (\<lambda>other. send other m) xs s) = outbox s @ map (\<lambda>other. (other, m)) xs"
  by (induction xs arbitrary: s) simp_all

lemma clocks_ok_updates [simp]:
  "clocks_ok (s\<lparr>db := d\<rparr>) = clocks_ok s"
  "clocks_ok (s\<lparr>waiting_player := w\<rparr>) = clocks_ok s"
  "clocks_ok (s\<lparr>rematch_offers := r\<rparr>) = clocks_ok s"
  "clocks_ok (s\<lparr>outbox := ob\<rparr>) = clocks_ok s"
  by (simp_all add: clocks_ok_def)

lemma status_mono_updates [simp]:
  "status_mono s (s'\<lparr>db := d\<rparr>) = status_mono s s'"
  "status_mono s (s'\<lparr>waiting_player := w\<rparr>) = status_mono s s'"
  "status_mono s (s'\<lparr>rematch_offers := r\<rparr>) = status_mono s s'"
  "status_mono s (s'\<lparr>outbox := ob\<rparr>) = status_mono s s'"
  "status_mono s (send u m s') = status_mono s s'"
  by (simp_all add: status_mono_def)








lemma clocks_ok_fold_send [simp]:
  "clocks_ok (fold (\<lambda>other. send other m) xs s) = clocks_ok s"
  by (simp add: clocks_ok_def)

lemma status_mono_fold_send [simp]:
  "status_mono s (fold (\<lambda>other. send other m) xs s') = status_mono s s'"
  by (simp add: status_mono_def)



lemma exec_Nil [simp]: "exec E s [] = s"
  by (simp add: exec_def)

lemma exec_Cons [simp]: "exec E s (ev # evs) = exec E (step E s ev) evs"
  by (simp add: exec_def)












section \<open>Turns\<close>


lemma turns_ok_updates [simp]:
  "turns_ok (s\<lparr>db := d\<rparr>) = turns_ok s"
  "turns_ok (s\<lparr>waiting_player := w\<rparr>) = turns_ok s"
  "turns_ok (s\<lparr>rematch_offers := r\<rparr>) = turns_ok s"
  "turns_ok (s\<lparr>outbox := ob\<rparr>) = turns_ok s"
  "turns_ok (s\<lparr>tasks := ts\<rparr>) = turns_ok s"
  "turns_ok (s\<lparr>player_game := pg\<rparr>) = turns_ok s"
  "turns_ok (send u m s) = turns_ok s"
  "turns_ok (set_status t st s) = turns_ok s"
  "turns_ok (cancel_timer_of g s) = turns_ok s"
  "turns_ok (fold (\<lambda>other. send other m) xs s) = turns_ok s"
  by (simp_all add: turns_ok_def)

lemma buttons_updates [simp]:
  "buttons (s\<lparr>db := d\<rparr>) = buttons s"
  "buttons (s\<lparr>waiting_player := w\<rparr>) = buttons s"
  "buttons (s\<lparr>rematch_offers := r\<rparr>) = buttons s"
  "buttons (s\<lparr>tasks := ts\<rparr>) = buttons s"
  "buttons (s\<lparr>games := gs\<rparr>) = buttons s"
  "buttons (s\<lparr>player_game := pg\<rparr>) = buttons s"
  "buttons (set_status t st s) = buttons s"
  "buttons (cancel_timer_of g s) = buttons s"
  by (simp_all add: buttons_def)











lemma buttons_ok_updates [simp]:
  "buttons_ok (s\<lparr>db := d\<rparr>) = buttons_ok s"
  "buttons_ok (s\<lparr>waiting_player := w\<rparr>) = buttons_ok s"
  "buttons_ok (s\<lparr>rematch_offers := r\<rparr>) = buttons_ok s"
  "buttons_ok (set_status t st s) = buttons_ok s"
  by (simp_all add: buttons_ok_def)



















end
